theory Spec2Isabelle
  imports Complex_Main "HOL-Library.Log_Nat"
begin

section \<open>Values\<close>

text \<open>
  The file \<^verbatim>\<open>SOLID_Principles_examples.js\<close> is a sequence of independent examples, several
  of which reuse a class name. Each example is read on its own; a class name that
  occurs more than once is prefixed by its example: \<open>LSP_\<close> for the two Liskov
  examples, \<open>ISP_\<close> for the segregated interfaces, \<open>Animal_\<close> for the classes that
  implement the broad \<open>Animal\<close> interface, \<open>DIP_\<close> for the car that receives its engine
  and \<open>GasEngine_\<close> for the car that builds its own. The two \<open>BankAccount\<close> classes
  take no part in the properties below and are not embedded.

  A JavaScript Number is a double. Its three special values are kept as they are;
  a finite double is the real number it stands for, and the two zeros, equal
  under \<^verbatim>\<open>===\<close>, are one value. The result of an operation on finite values is the
  exact result rounded to a double (section Number arithmetic).
\<close>

datatype jsnum = NaN | Infinity | NegInfinity | Fin real

datatype class_name =
    Shape | Rectangle | Circle | ShapeCalculator
  | Bird | LSP_Sparrow | LSP_Penguin
  | Vehicle | LSP_Car | Boat
  | ISP_Sparrow | ISP_Penguin
  | Animal_Sparrow | Animal_Penguin
  | Engine | DIP_Car
  | GasEngine | GasEngine_Car

text \<open>
  What is thrown: an \<^verbatim>\<open>Error\<close> made with \<^verbatim>\<open>new Error(message)\<close>, or one of the two
  errors that the language itself throws here. \<open>error_name\<close> is the \<^verbatim>\<open>name\<close>
  property of the thrown object.
\<close>

datatype error = Error string | TypeError | ReferenceError

fun error_name :: "error \<Rightarrow> string" where
  "error_name (Error message) = ''Error''"
| "error_name TypeError = ''TypeError''"
| "error_name ReferenceError = ''ReferenceError''"

text \<open>
  A value is a primitive, an instance of one of the classes, or an object from
  outside the file. \<open>Plain C\<close> is an instance of \<open>C\<close> with no own property (what
  \<^verbatim>\<open>new C()\<close> gives for a class whose constructor assigns nothing). The other
  instances carry the properties that the constructor body of their class
  assigns: \<^verbatim>\<open>width\<close> and \<^verbatim>\<open>height\<close>, \<^verbatim>\<open>radius\<close>, \<^verbatim>\<open>engine\<close>. The numeric properties
  hold Numbers; \<^verbatim>\<open>engine\<close> holds any value.

  \<open>Outside k out\<close> is an object that no class of the file builds and that a caller
  may pass all the same, such as \<^verbatim>\<open>{ start() { return 42; } }\<close>: of the method names
  of the file it has \<^verbatim>\<open>start\<close> alone, which prints the lines \<open>out\<close> and then
  returns the value or throws the error \<open>k\<close>.
\<close>

datatype jsval =
    Undefined | Null | Boolean bool | Number jsnum | String string
  | Plain class_name
  | RectangleObj jsnum jsnum
  | CircleObj jsnum
  | CarObj jsval
  | GasCarObj jsval
  | Outside "error + jsval" "string list"

type_synonym console = "string list"

text \<open>
  A call completes normally with a value (\<open>Inr\<close>) or abruptly with a thrown error
  (\<open>Inl\<close>); it also leaves the receiver and the console in some state.
\<close>

type_synonym outcome = "(error + jsval) \<times> jsval \<times> console"

definition completion :: "outcome \<Rightarrow> error + jsval" where
  "completion r = fst r"

definition receiver :: "outcome \<Rightarrow> jsval" where
  "receiver r = fst (snd r)"

definition printed :: "outcome \<Rightarrow> console" where
  "printed r = snd (snd r)"

section \<open>Number arithmetic\<close>

text \<open>
  Rounding to the nearest integer, a tie going to the even one.
\<close>

definition round_even :: "real \<Rightarrow> int" where
  "round_even y =
     (let f = \<lfloor>y\<rfloor>; d = y - of_int f
      in if d < 1 / 2 then f else if 1 / 2 < d then f + 1 else if even f then f else f + 1)"

text \<open>
  Rounding a real number to a double (IEEE 754 binary64, round to nearest, ties to
  even). The doubles are the multiples of \<open>2\<^sup>-\<^sup>1\<^sup>0\<^sup>7\<^sup>4\<close> with a significand of at most
  \<open>53\<close> bits, below \<open>2\<^sup>1\<^sup>0\<^sup>2\<^sup>4\<close> in magnitude. With \<open>y\<close> the magnitude counted in
  units of \<open>2\<^sup>-\<^sup>1\<^sup>0\<^sup>7\<^sup>4\<close>, the last \<open>s\<close> bits of \<open>y\<close> beyond the 53rd are rounded
  away; what reaches \<open>2\<^sup>1\<^sup>0\<^sup>2\<^sup>4\<close> overflows to an infinity, and what is below half
  a unit underflows to zero.
\<close>

definition round_double :: "real \<Rightarrow> jsnum" where
  "round_double x =
     (let y = \<bar>x\<bar> * 2 ^ 1074;
          s = nat (bitlen \<lfloor>y\<rfloor> - 53);
          r = of_int (round_even (y / 2 ^ s)) * 2 ^ s / 2 ^ 1074
      in if 2 ^ 1024 \<le> r then (if 0 < x then Infinity else NegInfinity)
         else Fin (if x < 0 then - r else r))"

definition inf_times :: "real \<Rightarrow> jsnum" where
  "inf_times x = (if x = 0 then NaN else if 0 < x then Infinity else NegInfinity)"

text \<open>\<^verbatim>\<open>x * y\<close>\<close>

fun js_mul :: "jsnum \<Rightarrow> jsnum \<Rightarrow> jsnum" where
  "js_mul NaN y = NaN"
| "js_mul x NaN = NaN"
| "js_mul (Fin x) (Fin y) = round_double (x * y)"
| "js_mul (Fin x) Infinity = inf_times x"
| "js_mul (Fin x) NegInfinity = inf_times (- x)"
| "js_mul Infinity (Fin y) = inf_times y"
| "js_mul NegInfinity (Fin y) = inf_times (- y)"
| "js_mul Infinity Infinity = Infinity"
| "js_mul NegInfinity NegInfinity = Infinity"
| "js_mul Infinity NegInfinity = NegInfinity"
| "js_mul NegInfinity Infinity = NegInfinity"

text \<open>\<^verbatim>\<open>x / 2\<close>\<close>

fun js_div2 :: "jsnum \<Rightarrow> jsnum" where
  "js_div2 NaN = NaN"
| "js_div2 Infinity = Infinity"
| "js_div2 NegInfinity = NegInfinity"
| "js_div2 (Fin x) = round_double (x / 2)"

text \<open>
  \<^verbatim>\<open>x ** 2\<close>. The language fixes the result at \<^verbatim>\<open>NaN\<close> and at the infinities and
  leaves the last place of a finite power to the engine; the finite case is the
  correctly rounded square.
\<close>

fun js_pow2 :: "jsnum \<Rightarrow> jsnum" where
  "js_pow2 NaN = NaN"
| "js_pow2 Infinity = Infinity"
| "js_pow2 NegInfinity = Infinity"
| "js_pow2 (Fin x) = round_double (x ^ 2)"

text \<open>\<^verbatim>\<open>Math.PI\<close>: the double nearest to \<open>\<pi>\<close>, \<^verbatim>\<open>3.141592653589793\<close>.\<close>

definition Math_PI :: jsnum where
  "Math_PI = Fin (884279719003555 / 281474976710656)"

text \<open>\<^verbatim>\<open>v === "lit"\<close>: strict equality with a string literal.\<close>

fun strict_eq_string :: "jsval \<Rightarrow> string \<Rightarrow> bool" where
  "strict_eq_string (String s) lit = (s = lit)"
| "strict_eq_string v lit = False"

text \<open>
  Reading a numeric property: the stored Number, and \<open>NaN\<close> (what \<^verbatim>\<open>undefined\<close>
  becomes in arithmetic) when the object has no such property.
\<close>

fun get_width :: "jsval \<Rightarrow> jsnum" where
  "get_width (RectangleObj w h) = w"
| "get_width v = NaN"

fun get_height :: "jsval \<Rightarrow> jsnum" where
  "get_height (RectangleObj w h) = h"
| "get_height v = NaN"

fun get_radius :: "jsval \<Rightarrow> jsnum" where
  "get_radius (CircleObj r) = r"
| "get_radius v = NaN"

section \<open>Classes\<close>

datatype method_name =
  area | calculateArea | fly | swim | run | startEngine | drive | start

fun superclass :: "class_name \<Rightarrow> class_name option" where
  "superclass Rectangle = Some Shape"
| "superclass Circle = Some Shape"
| "superclass LSP_Sparrow = Some Bird"
| "superclass LSP_Penguin = Some Bird"
| "superclass LSP_Car = Some Vehicle"
| "superclass Boat = Some Vehicle"
| "superclass C = None"

fun own_methods :: "class_name \<Rightarrow> method_name list" where
  "own_methods Shape = [area]"
| "own_methods Rectangle = [area]"
| "own_methods Circle = [area]"
| "own_methods ShapeCalculator = [calculateArea]"
| "own_methods Bird = [fly]"
| "own_methods LSP_Sparrow = [fly]"
| "own_methods LSP_Penguin = [fly]"
| "own_methods Vehicle = [startEngine, drive]"
| "own_methods LSP_Car = [startEngine, drive]"
| "own_methods Boat = [startEngine, drive]"
| "own_methods ISP_Sparrow = [fly, run]"
| "own_methods ISP_Penguin = [swim, run]"
| "own_methods Animal_Sparrow = [fly, swim, run]"
| "own_methods Animal_Penguin = [fly, swim, run]"
| "own_methods Engine = [start]"
| "own_methods DIP_Car = [start]"
| "own_methods GasEngine = [start]"
| "own_methods GasEngine_Car = [start]"

text \<open>
  The classes looked up for a method of an instance, nearest first. Every
  \<^verbatim>\<open>extends\<close> clause of the file names a class that extends nothing, so the chain
  has at most two members.
\<close>

definition prototype_chain :: "class_name \<Rightarrow> class_name list" where
  "prototype_chain C = (case superclass C of None \<Rightarrow> [C] | Some P \<Rightarrow> [C, P])"

definition exposed_methods :: "class_name \<Rightarrow> method_name list" where
  "exposed_methods C = concat (map own_methods (prototype_chain C))"

definition resolve :: "class_name \<Rightarrow> method_name \<Rightarrow> class_name option" where
  "resolve C m = find (\<lambda>K. m \<in> set (own_methods K)) (prototype_chain C)"

fun class_of :: "jsval \<Rightarrow> class_name option" where
  "class_of (Plain C) = Some C"
| "class_of (RectangleObj w h) = Some Rectangle"
| "class_of (CircleObj r) = Some Circle"
| "class_of (CarObj e) = Some DIP_Car"
| "class_of (GasCarObj e) = Some GasEngine_Car"
| "class_of v = None"

text \<open>The interfaces of the two segregation examples, and who implements them.\<close>

datatype interface = Flyable | Swimmable | Runnable | Animal

fun interface_methods :: "interface \<Rightarrow> method_name list" where
  "interface_methods Flyable = [fly]"
| "interface_methods Swimmable = [swim]"
| "interface_methods Runnable = [run]"
| "interface_methods Animal = [fly, swim, run]"

fun implements :: "class_name \<Rightarrow> interface list" where
  "implements ISP_Sparrow = [Flyable, Runnable]"
| "implements ISP_Penguin = [Swimmable, Runnable]"
| "implements Animal_Sparrow = [Animal]"
| "implements Animal_Penguin = [Animal]"
| "implements C = []"

section \<open>Method bodies\<close>

text \<open>\<^verbatim>\<open>console.log(s);\<close> as the whole body: one more line, result \<^verbatim>\<open>undefined\<close>.\<close>

definition console_log :: "string \<Rightarrow> jsval \<Rightarrow> console \<Rightarrow> outcome" where
  "console_log s this c = (Inr Undefined, this, c @ [s])"

text \<open>\<^verbatim>\<open>throw new Error(s);\<close> as the whole body.\<close>

definition throw_Error :: "string \<Rightarrow> jsval \<Rightarrow> console \<Rightarrow> outcome" where
  "throw_Error s this c = (Inl (Error s), this, c)"

text \<open>The empty body \<^verbatim>\<open>{}\<close>.\<close>

definition empty_body :: "jsval \<Rightarrow> console \<Rightarrow> outcome" where
  "empty_body this c = (Inr Undefined, this, c)"

text \<open>Calling what is not a function, or reading a property of \<^verbatim>\<open>undefined\<close> or \<^verbatim>\<open>null\<close>.\<close>

definition not_a_function :: "jsval \<Rightarrow> console \<Rightarrow> outcome" where
  "not_a_function this c = (Inl TypeError, this, c)"

definition Rectangle_area :: "jsval \<Rightarrow> console \<Rightarrow> outcome" where
  "Rectangle_area this c = (Inr (Number (js_mul (get_width this) (get_height this))), this, c)"

definition Circle_area :: "jsval \<Rightarrow> console \<Rightarrow> outcome" where
  "Circle_area this c = (Inr (Number (js_mul Math_PI (js_pow2 (get_radius this)))), this, c)"

definition ShapeCalculator_calculateArea ::
  "jsval \<Rightarrow> jsnum \<Rightarrow> jsnum \<Rightarrow> jsval \<Rightarrow> console \<Rightarrow> outcome" where
  "ShapeCalculator_calculateArea shape width height this c =
     (if strict_eq_string shape ''rectangle'' then
        (Inr (Number (js_mul width height)), this, c)
      else if strict_eq_string shape ''circle'' then
        (Inr (Number (js_mul Math_PI (js_pow2 (js_div2 width)))), this, c)
      else (Inr Undefined, this, c))"

text \<open>
  The body of method \<open>m\<close> as class \<open>K\<close> declares it, for every method but the two
  \<^verbatim>\<open>Car.start\<close> that call into another object (they are part of \<open>invoke\<close> below).
  Called without arguments, \<^verbatim>\<open>calculateArea\<close> sees \<^verbatim>\<open>undefined\<close> in each parameter.
\<close>

fun body :: "class_name \<Rightarrow> method_name \<Rightarrow> jsval \<Rightarrow> console \<Rightarrow> outcome" where
  "body Shape m = (case m of area \<Rightarrow> empty_body | _ \<Rightarrow> not_a_function)"
| "body Rectangle m = (case m of area \<Rightarrow> Rectangle_area | _ \<Rightarrow> not_a_function)"
| "body Circle m = (case m of area \<Rightarrow> Circle_area | _ \<Rightarrow> not_a_function)"
| "body ShapeCalculator m =
     (case m of
        calculateArea \<Rightarrow> ShapeCalculator_calculateArea Undefined NaN NaN
      | _ \<Rightarrow> not_a_function)"
| "body Bird m = (case m of fly \<Rightarrow> empty_body | _ \<Rightarrow> not_a_function)"
| "body LSP_Sparrow m =
     (case m of
        fly \<Rightarrow> console_log ''I can fly at a moderate speed''
      | _ \<Rightarrow> not_a_function)"
| "body LSP_Penguin m =
     (case m of
        fly \<Rightarrow> console_log ''I can't fly but I can swim''
      | _ \<Rightarrow> not_a_function)"
| "body Vehicle m =
     (case m of
        startEngine \<Rightarrow> empty_body
      | drive \<Rightarrow> empty_body
      | _ \<Rightarrow> not_a_function)"
| "body LSP_Car m =
     (case m of
        startEngine \<Rightarrow> console_log ''Engine started''
      | drive \<Rightarrow> console_log ''Driving on the road''
      | _ \<Rightarrow> not_a_function)"
| "body Boat m =
     (case m of
        startEngine \<Rightarrow> console_log ''Engine started''
      | drive \<Rightarrow> throw_Error ''I can't drive, I can only float!''
      | _ \<Rightarrow> not_a_function)"
| "body ISP_Sparrow m =
     (case m of
        fly \<Rightarrow> console_log ''I can fly at a moderate speed''
      | run \<Rightarrow> console_log ''I can run on the ground''
      | _ \<Rightarrow> not_a_function)"
| "body ISP_Penguin m =
     (case m of
        swim \<Rightarrow> console_log ''I can swim in water''
      | run \<Rightarrow> console_log ''I can run on the ground''
      | _ \<Rightarrow> not_a_function)"
| "body Animal_Sparrow m =
     (case m of
        fly \<Rightarrow> console_log ''I can fly at a moderate speed''
      | swim \<Rightarrow> throw_Error ''I can't swim, I can only fly!''
      | run \<Rightarrow> console_log ''I can run on the ground''
      | _ \<Rightarrow> not_a_function)"
| "body Animal_Penguin m =
     (case m of
        fly \<Rightarrow> throw_Error ''I can't fly, I can only swim!''
      | swim \<Rightarrow> console_log ''I can swim in water''
      | run \<Rightarrow> console_log ''I can run on the ground''
      | _ \<Rightarrow> not_a_function)"
| "body Engine m = (case m of start \<Rightarrow> console_log ''Engine started'' | _ \<Rightarrow> not_a_function)"
| "body GasEngine m =
     (case m of
        start \<Rightarrow> console_log ''Gas Engine started''
      | _ \<Rightarrow> not_a_function)"
| "body DIP_Car m = not_a_function"
| "body GasEngine_Car m = not_a_function"

text \<open>
  What follows the call \<^verbatim>\<open>this.engine.start();\<close> in both \<^verbatim>\<open>Car.start\<close>: a thrown
  error propagates, and otherwise the value of the call is dropped and the method
  ends without \<^verbatim>\<open>return\<close>.
\<close>

fun after_call :: "error + jsval \<Rightarrow> error + jsval" where
  "after_call (Inl e) = Inl e"
| "after_call (Inr v) = Inr Undefined"

text \<open>
  \<^verbatim>\<open>v.m()\<close>: a primitive has none of the methods of the file, an object from outside
  has its \<^verbatim>\<open>start\<close>, an instance has the methods of its prototype chain. The engine
  of a car is part of the car, so the state in which the call leaves the engine
  is the car's \<^verbatim>\<open>engine\<close> property afterwards.
\<close>

fun invoke :: "method_name \<Rightarrow> jsval \<Rightarrow> console \<Rightarrow> outcome" where
  "invoke m this c =
     (case class_of this of
        None \<Rightarrow>
          (case this of
             Outside k out \<Rightarrow>
               if m = start then (k, this, c @ out) else not_a_function this c
           | _ \<Rightarrow> not_a_function this c)
      | Some C \<Rightarrow>
          (case resolve C m of
             None \<Rightarrow> not_a_function this c
           | Some K \<Rightarrow>
               if K = DIP_Car \<or> K = GasEngine_Car then
                 (case this of
                    CarObj e \<Rightarrow>
                      (case invoke start e c of
                         (k, e', c') \<Rightarrow> (after_call k, CarObj e', c'))
                  | GasCarObj e \<Rightarrow>
                      (case invoke start e c of
                         (k, e', c') \<Rightarrow> (after_call k, GasCarObj e', c'))
                  | _ \<Rightarrow> not_a_function this c)
               else body K m this c))"

section \<open>Construction\<close>

text \<open>
  When a constructor body starts, \<^verbatim>\<open>this\<close> is bound to the new object in a class
  that extends nothing; in a class with an \<^verbatim>\<open>extends\<close> clause it is bound by the
  call \<^verbatim>\<open>super(...)\<close> only, and using it before throws a \<^verbatim>\<open>ReferenceError\<close>.
\<close>

datatype this_binding = Uninitialized | Bound

definition initial_this :: "class_name \<Rightarrow> this_binding" where
  "initial_this C = (case superclass C of None \<Rightarrow> Bound | Some P \<Rightarrow> Uninitialized)"

text \<open>
  \<^verbatim>\<open>constructor(width, height) { this.width = width; this.height = height; }\<close>
\<close>

definition Rectangle_constructor :: "this_binding \<Rightarrow> jsnum \<Rightarrow> jsnum \<Rightarrow> error + jsval" where
  "Rectangle_constructor this width height =
     (case this of
        Uninitialized \<Rightarrow> Inl ReferenceError
      | Bound \<Rightarrow> Inr (RectangleObj width height))"

text \<open>\<^verbatim>\<open>constructor(radius) { this.radius = radius; }\<close>\<close>

definition Circle_constructor :: "this_binding \<Rightarrow> jsnum \<Rightarrow> error + jsval" where
  "Circle_constructor this radius =
     (case this of
        Uninitialized \<Rightarrow> Inl ReferenceError
      | Bound \<Rightarrow> Inr (CircleObj radius))"

text \<open>\<^verbatim>\<open>constructor(engine) { this.engine = engine; }\<close>\<close>

definition DIP_Car_constructor :: "this_binding \<Rightarrow> jsval \<Rightarrow> error + jsval" where
  "DIP_Car_constructor this engine =
     (case this of
        Uninitialized \<Rightarrow> Inl ReferenceError
      | Bound \<Rightarrow> Inr (CarObj engine))"

text \<open>\<^verbatim>\<open>constructor() { this.engine = new GasEngine(); }\<close>\<close>

definition GasEngine_Car_constructor :: "this_binding \<Rightarrow> error + jsval" where
  "GasEngine_Car_constructor this =
     (case this of
        Uninitialized \<Rightarrow> Inl ReferenceError
      | Bound \<Rightarrow> Inr (GasCarObj (Plain GasEngine)))"

text \<open>\<^verbatim>\<open>new Rectangle(width, height)\<close>, \<^verbatim>\<open>new Circle(radius)\<close>, \<^verbatim>\<open>new Car(engine)\<close>, \<^verbatim>\<open>new Car()\<close>\<close>

definition new_Rectangle :: "jsnum \<Rightarrow> jsnum \<Rightarrow> error + jsval" where
  "new_Rectangle width height = Rectangle_constructor (initial_this Rectangle) width height"

definition new_Circle :: "jsnum \<Rightarrow> error + jsval" where
  "new_Circle radius = Circle_constructor (initial_this Circle) radius"

definition new_DIP_Car :: "jsval \<Rightarrow> error + jsval" where
  "new_DIP_Car engine = DIP_Car_constructor (initial_this DIP_Car) engine"

definition new_GasEngine_Car :: "error + jsval" where
  "new_GasEngine_Car = GasEngine_Car_constructor (initial_this GasEngine_Car)"

text \<open>
  The file documents two classes as substitutable for their base class: the comment
  above \<^verbatim>\<open>class Bird\<close> says that \<^verbatim>\<open>Sparrow\<close> and \<^verbatim>\<open>Penguin\<close> can stand wherever a
  \<^verbatim>\<open>Bird\<close> is expected.
\<close>

definition LSP_substitutable :: "class_name list" where
  "LSP_substitutable = [LSP_Sparrow, LSP_Penguin]"

section \<open>Rounding, where the result is exact\<close>

lemma round_even_of_int: "round_even (of_int z) = z"
  by (simp add: round_even_def)

text \<open>
  A number that is a double already is its own rounding: \<open>m \<sqdot> 2\<^sup>k\<close> units of
  \<open>2\<^sup>-\<^sup>1\<^sup>0\<^sup>7\<^sup>4\<close> with \<open>m\<close> of at most 53 bits, below the overflow bound.
\<close>

lemma round_double_exact:
  fixes m :: int and k :: nat
  assumes x: "x = of_int m * 2 ^ k / 2 ^ 1074"
    and m: "\<bar>m\<bar> < 2 ^ 53"
    and b: "\<bar>m\<bar> * 2 ^ k < 2 ^ 2098"
  shows "round_double x = Fin x"
proof -
  define N where "N = \<bar>m\<bar> * 2 ^ k"
  define s where "s = nat (bitlen N - 53)"
  have y: "\<bar>x\<bar> * 2 ^ 1074 = of_int N"
    by (simp add: x abs_mult N_def)
  have "N < 2 ^ 53 * 2 ^ k"
    using m by (simp add: N_def)
  then have "N < 2 ^ nat (53 + int k)"
    by (simp add: nat_add_distrib power_add)
  then have "bitlen N \<le> 53 + int k"
    by (simp add: bitlen_le_iff_power)
  then have "s \<le> k"
    by (simp add: s_def)
  then obtain j where j: "k = s + j"
    using le_Suc_ex by blast
  have q: "of_int N / 2 ^ s = (of_int (\<bar>m\<bar> * 2 ^ j) :: real)"
    by (simp add: N_def j power_add)
  have r: "of_int (round_even (of_int N / 2 ^ s)) * 2 ^ s / 2 ^ 1074 = \<bar>x\<bar>"
    unfolding q round_even_of_int by (simp add: x j power_add abs_mult)
  have "real_of_int N < real_of_int (2 ^ 2098)"
    using b unfolding N_def by (simp only: of_int_less_iff)
  then have "\<bar>x\<bar> * 2 ^ 1074 < 2 ^ 1024 * 2 ^ 1074"
    unfolding y by (simp add: power_add [symmetric])
  then have lt: "\<bar>x\<bar> < 2 ^ 1024"
    by simp
  have "round_double x =
      (if 2 ^ 1024 \<le> \<bar>x\<bar> then (if 0 < x then Infinity else NegInfinity)
       else Fin (if x < 0 then - \<bar>x\<bar> else \<bar>x\<bar>))"
    unfolding round_double_def Let_def y floor_of_int s_def [symmetric] r ..
  with lt show ?thesis
    by simp
qed

lemma round_double_0: "round_double 0 = Fin 0"
  by (simp add: round_double_def round_even_def)

lemma round_double_4: "round_double 4 = Fin 4"
  by (rule round_double_exact [where m = 4 and k = 1074]) simp_all

lemma round_double_20: "round_double 20 = Fin 20"
  by (rule round_double_exact [where m = 20 and k = 1074]) simp_all

lemma round_double_4_PI:
  "round_double (884279719003555 / 70368744177664) = Fin (884279719003555 / 70368744177664)"
  by (rule round_double_exact [where m = 884279719003555 and k = 1028]) simp_all

text \<open>
  Where it is not exact: the square of \<open>2\<^sup>-\<^sup>5\<^sup>4\<^sup>0\<close> underflows to zero, the square of
  \<open>2\<^sup>6\<^sup>0\<^sup>0\<close> overflows, and three times the double \<^verbatim>\<open>0.1\<close> is the double
  \<^verbatim>\<open>0.30000000000000004\<close>.
\<close>

lemma js_pow2_underflow: "js_pow2 (Fin (1 / 2 ^ 540)) = Fin 0"
  by (simp add: round_double_def round_even_def power_divide flip: power_mult)

lemma js_pow2_overflow: "js_pow2 (Fin (2 ^ 600)) = Infinity"
proof -
  have "bitlen (1 * 2 ^ 2274) = bitlen 1 + int 2274"
    by (rule bitlen_pow2) simp
  moreover have "bitlen 1 = 1"
    by (simp add: bitlen_alt_def)
  ultimately have b: "bitlen (2 ^ 2274) = 2275"
    by simp
  have y: "\<bar>(2 ^ 600)\<^sup>2 :: real\<bar> * 2 ^ 1074 = of_int (2 ^ 2274)"
    by (simp flip: power_mult power_add)
  have "round_double ((2 ^ 600)\<^sup>2) = Infinity"
    unfolding round_double_def Let_def y floor_of_int b
    by (simp add: round_even_def)
  then show ?thesis
    by simp
qed

lemma js_mul_rounds:
  "js_mul (Fin (3602879701896397 / 36028797018963968)) (Fin 3)
     = Fin (1351079888211149 / 4503599627370496)"
proof -
  have y: "\<bar>3602879701896397 / 36028797018963968 * 3 :: real\<bar> * 2 ^ 1074
      = 10808639105689191 * 2 ^ 1019"
    by simp
  have fl: "\<lfloor>10808639105689191 * 2 ^ 1019 :: real\<rfloor> = 10808639105689191 * 2 ^ 1019"
    by (metis floor_of_int of_int_numeral of_int_mult of_int_power)
  have "bitlen (10808639105689191 * 2 ^ 1019) = bitlen 10808639105689191 + int 1019"
    by (rule bitlen_pow2) simp
  moreover have "bitlen 10808639105689191 = 54"
    by (simp add: compute_bitlen)
  ultimately have b: "bitlen (10808639105689191 * 2 ^ 1019) = 1073"
    by simp
  have d: "10808639105689191 * 2 ^ 1019 / 2 ^ 1020 = (10808639105689191 / 2 :: real)"
    by simp
  have e: "round_even (10808639105689191 / 2) = 5404319552844596"
    by (simp add: round_even_def)
  have "round_double (3602879701896397 / 36028797018963968 * 3)
      = Fin (1351079888211149 / 4503599627370496)"
    unfolding round_double_def Let_def y fl b
    by (simp add: d e)
  then show ?thesis
    by simp
qed

section \<open>Calls, case by case\<close>

declare invoke.simps [simp del]

lemma invoke_primitive:
  "invoke m Undefined c = not_a_function Undefined c"
  "invoke m Null c = not_a_function Null c"
  "invoke m (Boolean b) c = not_a_function (Boolean b) c"
  "invoke m (Number n) c = not_a_function (Number n) c"
  "invoke m (String s) c = not_a_function (String s) c"
  by (simp_all add: invoke.simps)

lemma invoke_Outside:
  "invoke m (Outside k out) c =
     (if m = start then (k, Outside k out, c @ out) else not_a_function (Outside k out) c)"
  by (simp add: invoke.simps)

lemma resolve_DIP_Car: "resolve DIP_Car m = (if m = start then Some DIP_Car else None)"
  by (simp add: resolve_def prototype_chain_def)


lemma invoke_CarObj_start:
  "invoke start (CarObj e) c =
     (case invoke start e c of (k, e', c') \<Rightarrow> (after_call k, CarObj e', c'))"
  by (subst invoke.simps) (simp add: resolve_DIP_Car)




lemma invoke_Plain:
  "invoke m (Plain C) c =
     (case resolve C m of
        None \<Rightarrow> not_a_function (Plain C) c
      | Some K \<Rightarrow> if K = DIP_Car \<or> K = GasEngine_Car then not_a_function (Plain C) c
                  else body K m (Plain C) c)"
  by (subst invoke.simps) (simp split: option.splits)

lemma invoke_RectangleObj:
  "invoke m (RectangleObj w h) c =
     (if m = area then Rectangle_area (RectangleObj w h) c
      else not_a_function (RectangleObj w h) c)"
  by (subst invoke.simps) (simp add: resolve_def prototype_chain_def)

lemma invoke_CircleObj:
  "invoke m (CircleObj r) c =
     (if m = area then Circle_area (CircleObj r) c else not_a_function (CircleObj r) c)"
  by (subst invoke.simps) (simp add: resolve_def prototype_chain_def)



lemma invoke_start_Engine:
  "invoke start (Plain Engine) c = (Inr Undefined, Plain Engine, c @ [''Engine started''])"
  by (simp add: invoke_Plain resolve_def prototype_chain_def console_log_def)

lemma new_DIP_Car_eq: "new_DIP_Car e = Inr (CarObj e)"
  by (simp add: new_DIP_Car_def DIP_Car_constructor_def initial_this_def)

lemma new_Circle_throws: "new_Circle r = Inl ReferenceError"
  by (simp add: new_Circle_def Circle_constructor_def initial_this_def)

lemma invoke_start_absent:
  "invoke start (CarObj Null) c = (Inl TypeError, CarObj Null, c)"
  "invoke start (CarObj Undefined) c = (Inl TypeError, CarObj Undefined, c)"
  by (simp_all add: invoke_CarObj_start invoke_primitive not_a_function_def)

text \<open>
  \<^verbatim>\<open>calculateArea("circle", w, h)\<close> is \<^verbatim>\<open>Math.PI * (w / 2) ** 2\<close>: the width is taken
  as a diameter and the height is not read.
\<close>

lemma calculateArea_circle:
  "ShapeCalculator_calculateArea (String ''circle'') w h this c =
     (Inr (Number (js_mul Math_PI (js_pow2 (js_div2 w)))), this, c)"
  by (simp add: ShapeCalculator_calculateArea_def)

text \<open>
  The two \<^verbatim>\<open>area\<close> bodies compute what their names say on an object that holds the
  properties: \<open>20\<close> for width \<open>4\<close> and height \<open>5\<close>, and \<^verbatim>\<open>12.566370614359172\<close> for
  radius \<open>2\<close>.
\<close>

lemma Rectangle_area_4_5:
  "invoke area (RectangleObj (Fin 4) (Fin 5)) c =
     (Inr (Number (Fin 20)), RectangleObj (Fin 4) (Fin 5), c)"
  by (simp add: invoke_RectangleObj Rectangle_area_def round_double_20)

lemma Circle_area_2:
  "invoke area (CircleObj (Fin 2)) c =
     (Inr (Number (Fin (884279719003555 / 70368744177664))), CircleObj (Fin 2), c)"
  "\<bar>884279719003555 / 70368744177664 - 12.566\<bar> < (0.001 :: real)"
  by (simp_all add: invoke_CircleObj Circle_area_def Math_PI_def round_double_4
        round_double_4_PI)

text \<open>
  The file's own example of a class that is not substitutable: \<^verbatim>\<open>drive()\<close> succeeds
  on the car that extends \<open>Vehicle\<close> and throws on the boat.
\<close>

lemma Boat_drive_throws:
  "invoke drive (Plain LSP_Car) c = (Inr Undefined, Plain LSP_Car, c @ [''Driving on the road''])"
  "invoke drive (Plain Boat) c = (Inl (Error ''I can't drive, I can only float!''), Plain Boat, c)"
  by (simp_all add: invoke_Plain resolve_def prototype_chain_def console_log_def throw_Error_def)

section \<open>Delegation\<close>

text \<open>
  C1, as stated: \<^verbatim>\<open>car.start()\<close> gives exactly the result of \<^verbatim>\<open>engine.start()\<close>. It
  does not when the engine returns a value: for the engine
  \<^verbatim>\<open>{ start() { return 42; } }\<close> the engine's call returns \<open>42\<close> and the car's returns
  \<^verbatim>\<open>undefined\<close>.
\<close>

theorem car_start_drops_returned_value:
  "new_DIP_Car (Outside (Inr (Number (Fin 42))) [])
     = Inr (CarObj (Outside (Inr (Number (Fin 42))) []))
   \<and> completion (invoke start (Outside (Inr (Number (Fin 42))) []) []) = Inr (Number (Fin 42))
   \<and> completion (invoke start (CarObj (Outside (Inr (Number (Fin 42))) [])) [])
     = Inr Undefined"
  by (simp add: new_DIP_Car_eq invoke_CarObj_start invoke_Outside completion_def)

text \<open>
  C1, amended. \<^verbatim>\<open>new Car(engine)\<close> is a car that holds the engine, and
  \<^verbatim>\<open>car.start()\<close> is one call of \<^verbatim>\<open>engine.start()\<close> with no test of what the engine
  is: it prints what that call prints, leaves the engine as that call leaves it,
  and throws what that call throws. When that call returns, \<^verbatim>\<open>car.start()\<close>
  returns \<^verbatim>\<open>undefined\<close>, whatever was returned. So the two results are the same
  when the engine's \<^verbatim>\<open>start()\<close> throws or returns \<^verbatim>\<open>undefined\<close>, as that of the
  file's \<open>Engine\<close> does: both calls print \<^verbatim>\<open>Engine started\<close> and return \<^verbatim>\<open>undefined\<close>.
\<close>

theorem car_start_forwards_call:
  "new_DIP_Car e = Inr (CarObj e)
   \<and> printed (invoke start (CarObj e) c) = printed (invoke start e c)
   \<and> receiver (invoke start (CarObj e) c) = CarObj (receiver (invoke start e c))
   \<and> completion (invoke start (CarObj e) c)
     = (case completion (invoke start e c) of Inl err \<Rightarrow> Inl err | Inr v \<Rightarrow> Inr Undefined)
   \<and> invoke start (Plain Engine) c = (Inr Undefined, Plain Engine, c @ [''Engine started''])
   \<and> invoke start (CarObj (Plain Engine)) c
     = (Inr Undefined, CarObj (Plain Engine), c @ [''Engine started''])
   \<and> invoke start (CarObj (Outside (Inl err) out)) c
     = (Inl err, CarObj (Outside (Inl err) out), c @ out)
   \<and> invoke start (CarObj (Outside (Inr v) out)) c
     = (Inr Undefined, CarObj (Outside (Inr v) out), c @ out)"
proof -
  obtain k e' c' where r: "invoke start e c = (k, e', c')"
    by (cases "invoke start e c")
  have "printed (invoke start (CarObj e) c) = printed (invoke start e c)"
    and "receiver (invoke start (CarObj e) c) = CarObj (receiver (invoke start e c))"
    and "completion (invoke start (CarObj e) c)
      = (case completion (invoke start e c) of Inl err \<Rightarrow> Inl err | Inr v \<Rightarrow> Inr Undefined)"
    by (cases k; simp add: invoke_CarObj_start r printed_def receiver_def completion_def)+
  then show ?thesis
    by (simp add: new_DIP_Car_eq invoke_CarObj_start invoke_Outside invoke_start_Engine)
qed

text \<open>
  C2, as stated: construction with an absent or \<^verbatim>\<open>null\<close> engine fails. It does
  not: \<^verbatim>\<open>new Car(null)\<close> is a car whose engine is \<^verbatim>\<open>null\<close>.
\<close>

theorem car_constructor_accepts_null:
  "new_DIP_Car Null = Inr (CarObj Null)"
  by (simp add: new_DIP_Car_def DIP_Car_constructor_def initial_this_def)

text \<open>
  C2, amended. The constructor checks nothing: for every argument, \<^verbatim>\<open>null\<close> and
  \<^verbatim>\<open>undefined\<close> among them, construction succeeds and the car holds the argument
  as its engine. An absent engine fails later, when \<^verbatim>\<open>start()\<close> is called, with a
  \<^verbatim>\<open>TypeError\<close>.
\<close>

theorem car_constructor_stores_any_value:
  "new_DIP_Car e = Inr (CarObj e)
   \<and> invoke start (CarObj Null) c = (Inl TypeError, CarObj Null, c)
   \<and> invoke start (CarObj Undefined) c = (Inl TypeError, CarObj Undefined, c)"
  by (simp add: new_DIP_Car_eq invoke_start_absent)


section \<open>Unsupported operations\<close>

text \<open>
  C3, as stated: asked to swim, the sparrow that implements \<open>Animal\<close> returns a
  failure of the type \<open>UnsupportedOperation\<close>. It returns nothing: the call throws,
  and what it throws is a plain \<^verbatim>\<open>Error\<close>, whose name is \<^verbatim>\<open>Error\<close>.
\<close>

theorem sparrow_swim_throws_plain_Error:
  "completion (invoke swim (Plain Animal_Sparrow) [])
     = Inl (Error ''I can't swim, I can only fly!'')
   \<and> error_name (Error ''I can't swim, I can only fly!'') = ''Error''
   \<and> error_name (Error ''I can't swim, I can only fly!'') \<noteq> ''UnsupportedOperation''"
  by (simp add: invoke_Plain resolve_def prototype_chain_def throw_Error_def completion_def)

text \<open>
  C3, amended. The file has no \<open>UnsupportedOperation\<close> type and no failure that is
  returned. Asked to swim, the sparrow that implements \<open>Animal\<close> throws a plain
  \<^verbatim>\<open>Error\<close> that carries a message; so does the penguin asked to fly. The body is
  the \<^verbatim>\<open>throw\<close> alone, so nothing catches the error: it is the completion of the
  call, nothing is printed and the object is left as it was, and the call is
  never a silent success. The sparrow and the penguin of the segregated
  interfaces do not have the excluded method, and the same calls throw a
  \<^verbatim>\<open>TypeError\<close>.
\<close>

theorem excluded_operation_throws:
  "invoke swim (Plain Animal_Sparrow) c =
     (Inl (Error ''I can't swim, I can only fly!''), Plain Animal_Sparrow, c)
   \<and> invoke fly (Plain Animal_Penguin) c =
     (Inl (Error ''I can't fly, I can only swim!''), Plain Animal_Penguin, c)
   \<and> error_name (Error ''I can't swim, I can only fly!'') = ''Error''
   \<and> error_name (Error ''I can't fly, I can only swim!'') = ''Error''
   \<and> invoke swim (Plain ISP_Sparrow) c = (Inl TypeError, Plain ISP_Sparrow, c)
   \<and> invoke fly (Plain ISP_Penguin) c = (Inl TypeError, Plain ISP_Penguin, c)"
  by (simp add: invoke_Plain resolve_def prototype_chain_def throw_Error_def
        not_a_function_def)

text \<open>
  C4. Two classes documented as substitutable both extend \<open>Bird\<close>, and \<^verbatim>\<open>fly()\<close>
  succeeds on an instance of either as it does on a \<open>Bird\<close>: it returns
  \<^verbatim>\<open>undefined\<close> and throws nothing. Putting one in the place of the other brings
  no failure.
\<close>

theorem substitutable_birds_fly:
  assumes "P1 \<in> set LSP_substitutable" and "P2 \<in> set LSP_substitutable"
  shows "superclass P1 = Some Bird \<and> superclass P2 = Some Bird
    \<and> completion (invoke fly (Plain Bird) c) = Inr Undefined
    \<and> completion (invoke fly (Plain P1) c) = Inr Undefined
    \<and> completion (invoke fly (Plain P2) c) = Inr Undefined"
  using assms
  by (auto simp: LSP_substitutable_def invoke_Plain resolve_def prototype_chain_def
        completion_def console_log_def empty_body_def)

theorem substitutable_birds_fly_witness:
  "LSP_Sparrow \<in> set LSP_substitutable \<and> LSP_Penguin \<in> set LSP_substitutable
   \<and> completion (invoke fly (Plain LSP_Sparrow) []) = Inr Undefined
   \<and> completion (invoke fly (Plain LSP_Penguin) []) = Inr Undefined"
proof -
  have s: "LSP_Sparrow \<in> set LSP_substitutable" and p: "LSP_Penguin \<in> set LSP_substitutable"
    by (simp_all add: LSP_substitutable_def)
  show ?thesis
    using s p substitutable_birds_fly [OF s p, of "[]"] by simp
qed

text \<open>
  C8. The sparrow that implements \<open>Flyable\<close> and \<open>Runnable\<close> has the methods
  \<^verbatim>\<open>fly\<close> and \<^verbatim>\<open>run\<close>, those of its interfaces, and no \<^verbatim>\<open>swim\<close>: the call
  \<^verbatim>\<open>sparrow.swim()\<close> finds no function. The penguin that implements \<open>Swimmable\<close>
  and \<open>Runnable\<close> has \<^verbatim>\<open>swim\<close> and \<^verbatim>\<open>run\<close>, and no \<^verbatim>\<open>fly\<close>.
\<close>

theorem segregated_interfaces_minimal:
  "implements ISP_Sparrow = [Flyable, Runnable]
   \<and> exposed_methods ISP_Sparrow = [fly, run]
   \<and> exposed_methods ISP_Sparrow = concat (map interface_methods (implements ISP_Sparrow))
   \<and> resolve ISP_Sparrow swim = None
   \<and> invoke swim (Plain ISP_Sparrow) c = (Inl TypeError, Plain ISP_Sparrow, c)
   \<and> implements ISP_Penguin = [Swimmable, Runnable]
   \<and> exposed_methods ISP_Penguin = [swim, run]
   \<and> exposed_methods ISP_Penguin = concat (map interface_methods (implements ISP_Penguin))
   \<and> resolve ISP_Penguin fly = None
   \<and> invoke fly (Plain ISP_Penguin) c = (Inl TypeError, Plain ISP_Penguin, c)"
  by (simp add: exposed_methods_def prototype_chain_def resolve_def invoke_Plain
        not_a_function_def)

section \<open>Shapes\<close>

text \<open>
  C5. \<^verbatim>\<open>new Rectangle(4, 5)\<close> returns no rectangle. \<open>Rectangle\<close> extends \<open>Shape\<close> and
  its constructor assigns \<^verbatim>\<open>this.width\<close> without calling \<^verbatim>\<open>super()\<close> first, so the
  construction throws a \<^verbatim>\<open>ReferenceError\<close> and no \<^verbatim>\<open>area()\<close> follows.
\<close>

theorem new_Rectangle_4_5_throws:
  "new_Rectangle (Fin 4) (Fin 5) = Inl ReferenceError"
  by (simp add: new_Rectangle_def Rectangle_constructor_def initial_this_def)

text \<open>
  C6. \<^verbatim>\<open>new Circle(2)\<close> throws a \<^verbatim>\<open>ReferenceError\<close> for the same reason: \<open>Circle\<close>
  extends \<open>Shape\<close> and its constructor assigns \<^verbatim>\<open>this.radius\<close> without \<^verbatim>\<open>super()\<close>.
\<close>

theorem new_Circle_2_throws:
  "new_Circle (Fin 2) = Inl ReferenceError"
  by (simp add: new_Circle_def Circle_constructor_def initial_this_def)

text \<open>
  C9. For a shape string other than \<^verbatim>\<open>"rectangle"\<close> and \<^verbatim>\<open>"circle"\<close>, whatever the
  width and the height, \<^verbatim>\<open>calculateArea\<close> completes normally with \<^verbatim>\<open>undefined\<close>: it
  throws nothing, prints nothing and changes nothing.
\<close>

theorem calculateArea_unknown_shape:
  assumes "s \<noteq> ''rectangle''" and "s \<noteq> ''circle''"
  shows "ShapeCalculator_calculateArea (String s) width height this c = (Inr Undefined, this, c)"
  using assms by (simp add: ShapeCalculator_calculateArea_def)

theorem calculateArea_unknown_shape_witness:
  "''triangle'' \<noteq> ''rectangle'' \<and> ''triangle'' \<noteq> ''circle''
   \<and> ShapeCalculator_calculateArea (String ''triangle'') (Fin 3) (Fin 4)
        (Plain ShapeCalculator) [] = (Inr Undefined, Plain ShapeCalculator, [])"
proof -
  have r: "''triangle'' \<noteq> ''rectangle''" and k: "''triangle'' \<noteq> ''circle''"
    by simp_all
  show ?thesis
    using r k calculateArea_unknown_shape [OF r k, of "Fin 3" "Fin 4" "Plain ShapeCalculator" "[]"]
    by simp
qed

text \<open>
  C10. The comparison of \<^verbatim>\<open>calculateArea("circle", r, h)\<close> with the \<^verbatim>\<open>area()\<close> of
  \<^verbatim>\<open>new Circle(r)\<close> never takes place, not even at \<open>r = 0\<close> where both are meant to
  be \<open>0\<close>: \<^verbatim>\<open>calculateArea("circle", 0, 0)\<close> returns \<open>0\<close>, and \<^verbatim>\<open>new Circle(0)\<close> throws
  a \<^verbatim>\<open>ReferenceError\<close> before any \<^verbatim>\<open>area()\<close>, for the missing \<^verbatim>\<open>super()\<close>.
\<close>

theorem circle_comparison_at_0:
  "completion (ShapeCalculator_calculateArea (String ''circle'') (Fin 0) (Fin 0)
      (Plain ShapeCalculator) []) = Inr (Number (Fin 0))
   \<and> new_Circle (Fin 0) = Inl ReferenceError"
  by (simp add: calculateArea_circle completion_def Math_PI_def round_double_0
        new_Circle_throws)

end
